theory Spec2Isabelle
  imports Complex_Main "HOL-Library.Sublist" "HOL-Library.Stream"
begin

section \<open>Python strings\<close>

text \<open>
  A Python \<open>str\<close> is modelled as a \<open>string\<close> whose characters are read as the code
  points U+0000 to U+00FF. The library functions below are the Python ones restricted to
  that range: \<open>str.isspace\<close>, \<open>str.strip()\<close>, \<open>str.lower()\<close>, \<open>str.find\<close>, the
  operator \<open>in\<close> on strings, \<open>len(s.split())\<close> and \<open>str(n)\<close> for an integer.
\<close>

definition is_space :: "char \<Rightarrow> bool" where
  "is_space c = ((of_char c :: nat) \<in> {9, 10, 11, 12, 13, 28, 29, 30, 31, 32, 133, 160})"

definition strip :: "string \<Rightarrow> string" where
  "strip s = rev (dropWhile is_space (rev (dropWhile is_space s)))"

definition lower_char :: "char \<Rightarrow> char" where
  "lower_char c =
     (let n = (of_char c :: nat)
      in if (65 \<le> n \<and> n \<le> 90) \<or> (192 \<le> n \<and> n \<le> 222 \<and> n \<noteq> 215)
         then char_of (n + 32) else c)"

definition lower :: "string \<Rightarrow> string" where
  "lower s = map lower_char s"

fun find_str :: "string \<Rightarrow> string \<Rightarrow> nat option" where
  "find_str [] sub = (if sub = [] then Some 0 else None)"
| "find_str (c # cs) sub =
     (if prefix sub (c # cs) then Some 0 else map_option Suc (find_str cs sub))"

definition contains :: "string \<Rightarrow> string \<Rightarrow> bool" where
  "contains sub s = (find_str s sub \<noteq> None)"

fun word_count :: "bool \<Rightarrow> string \<Rightarrow> nat" where
  "word_count inside [] = 0"
| "word_count inside (c # cs) =
     (if is_space c then word_count False cs
      else if inside then word_count True cs
      else Suc (word_count True cs))"

definition digit_char :: "nat \<Rightarrow> char" where
  "digit_char d = char_of (48 + d)"

fun str_nat :: "nat \<Rightarrow> string" where
  "str_nat n = (if n < 10 then [digit_char n] else str_nat (n div 10) @ [digit_char (n mod 10)])"

declare str_nat.simps [simp del]

definition str_int :: "int \<Rightarrow> string" where
  "str_int i = (if i < 0 then CHR ''-'' # str_nat (nat (- i)) else str_nat (nat i))"

section \<open>Search results\<close>

text \<open>
  The dictionaries returned by the search backend. A key that may be absent is an
  \<open>option\<close>; the values that are present are strings (title, snippet, link, answer) or
  lists of entries (organic). \<open>ab_other_keys\<close> says whether the answer box holds keys
  other than \<open>answer\<close> and \<open>snippet\<close>, which decides its truth value when both are absent.
\<close>

record organic_result =
  title :: "string option"
  snippet :: "string option"
  link :: "string option"

record answer_box =
  ab_answer :: "string option"
  ab_snippet :: "string option"
  ab_other_keys :: bool

record search_results =
  organic :: "organic_result list option"
  answerBox :: "answer_box option"
  answer_box_alt :: "answer_box option"

definition dict_get :: "'a option \<Rightarrow> 'a \<Rightarrow> 'a" where
  "dict_get v dflt = (case v of None \<Rightarrow> dflt | Some x \<Rightarrow> x)"

definition empty_results :: search_results where
  "empty_results = \<lparr>organic = Some [], answerBox = None, answer_box_alt = None\<rparr>"

section \<open>Prompt formatter (llm\_service.format\_optimized\_prompt)\<close>

definition prompt_intro :: "string \<Rightarrow> string" where
  \<open>prompt_intro query =
     ''You are an AI assistant that provides helpful, accurate, thorough, and complete answers based on search results.\<newline>''
     @ ''\<newline>''
     @ ''USER QUERY: '' @ query @ ''\<newline>''
     @ ''\<newline>''
     @ ''Your task is to analyze and synthesize the following search results to provide a comprehensive answer to the user's question. \<newline>''
     @ ''Focus on being accurate, detailed, dont explain it overexaggerated and complete in your response.\<newline>''
     @ ''\<newline>''\<close>

definition prompt_instructions :: string where
  \<open>prompt_instructions =
     ''INSTRUCTIONS:\<newline>''
     @ ''1. Provide a thorough and complete answer to the user's query.\<newline>''
     @ ''2. Structure your response with a clear beginning, middle, and conclusion.\<newline>''
     @ ''3. Include relevant facts, explanations, and context from the search results.\<newline>''
     @ ''4. If the information is not sufficient, acknowledge this limitation.\<newline>''
     @ ''5. Do not include phrases like "Based on the search results" or "According to the information provided" in your answer.\<newline>''
     @ ''6. Write in a helpful, informative tone.\<newline>''
     @ ''7. Always finish your response with a proper conclusion or summary.\<newline>''
     @ ''8. Make sure your answer is complete and doesn't cut off mid-explanation.\<newline>''
     @ ''9. End your response with the phrase "END OF RESPONSE" to indicate you have finished.\<newline>''
     @ ''\<newline>''
     @ ''Remember: Your goal is to provide a complete, well-structured answer that fully addresses the user's question.\<newline>''
     @ ''\<newline>''
     @ ''Begin your response now:\<newline>''\<close>

text \<open>An answer box is true in a condition when the dictionary has at least one key.\<close>

definition ab_truthy :: "answer_box \<Rightarrow> bool" where
  "ab_truthy ab = (ab_answer ab \<noteq> None \<or> ab_snippet ab \<noteq> None \<or> ab_other_keys ab)"

text \<open>
  \<open>answer_box = search_results.get("answerBox", {})\<close>, then the alternate key
  \<open>answer_box\<close> when the first is false and the key \<open>answerBox\<close> is absent.
  \<open>None\<close> stands for the empty dictionary of the default.
\<close>

definition select_answer_box :: "search_results \<Rightarrow> answer_box option" where
  "select_answer_box sr =
     (case answerBox sr of
        Some ab \<Rightarrow> Some ab
      | None \<Rightarrow> answer_box_alt sr)"

definition featured_text :: "string \<Rightarrow> string" where
  "featured_text answer = (if length answer > 500 then take 497 answer @ ''...'' else answer)"

definition add_answer_box :: "answer_box option \<Rightarrow> string \<Rightarrow> string" where
  "add_answer_box abo prompt =
     (case abo of
        None \<Rightarrow> prompt
      | Some ab \<Rightarrow>
          if ab_truthy ab then
            (let prompt = prompt @ ''FEATURED ANSWER:\<newline>''
             in case ab_answer ab of
                  Some answer \<Rightarrow> prompt @ featured_text answer @ ''\<newline>\<newline>''
                | None \<Rightarrow>
                   (case ab_snippet ab of
                      Some snip \<Rightarrow> prompt @ featured_text snip @ ''\<newline>\<newline>''
                    | None \<Rightarrow> prompt))
          else prompt)"

definition shown_snippet :: "organic_result \<Rightarrow> string" where
  "shown_snippet result =
     (let snip = dict_get (snippet result) ''No Snippet''
      in if length snip > 400 then take 397 snip @ ''...'' else snip)"

definition add_result :: "nat \<Rightarrow> organic_result \<Rightarrow> string \<Rightarrow> string" where
  "add_result i result prompt =
     (let ttl = dict_get (title result) ''No Title'';
          snip = shown_snippet result;
          lnk = dict_get (link result) ''No Link'';
          prompt = prompt @ str_nat i @ ''. '' @ ttl @ ''\<newline>'';
          prompt = prompt @ ''   '' @ snip @ ''\<newline>''
      in prompt @ ''   Source: '' @ lnk @ ''\<newline>\<newline>'')"

text \<open>The loop \<open>for i, result in enumerate(organic_results, 1)\<close>.\<close>

fun add_results :: "nat \<Rightarrow> organic_result list \<Rightarrow> string \<Rightarrow> string" where
  "add_results i [] prompt = prompt"
| "add_results i (result # rest) prompt = add_results (Suc i) rest (add_result i result prompt)"

definition format_optimized_prompt :: "string \<Rightarrow> search_results \<Rightarrow> string" where
  "format_optimized_prompt query sr =
     (let prompt = prompt_intro query;
          organic_results = take 5 (dict_get (organic sr) []);
          prompt = add_answer_box (select_answer_box sr) prompt;
          prompt = prompt @ ''SEARCH RESULTS:\<newline>'';
          prompt = add_results 1 organic_results prompt
      in prompt @ prompt_instructions)"

section \<open>Streaming generator (llm\_service.generate\_answer\_streaming)\<close>

definition fallback_answer :: "string \<Rightarrow> string" where
  "fallback_answer query =
     ''I'm sorry, I couldn't generate a complete response for '' @ [CHR 0x27] @ query
     @ [CHR 0x27] @ ''. Please try a more specific question or check back later.''"

definition end_token :: string where
  "end_token = ''END OF RESPONSE''"

definition completion_indicators :: "string list" where
  "completion_indicators =
     [''In conclusion'', ''To summarize'', ''In summary'', ''Thank you for your question'',
      ''I hope this helps'', end_token]"

definition closing :: string where
  "closing = ''\<newline>\<newline>I hope this information addresses your question. Let me know if you need further clarification.''"

definition emergency_fallback :: string where
  "emergency_fallback =
     ''I apologize, but I couldn't process your request at this time. Please try again later.''"

text \<open>
  One item of \<open>response.aiter_text()\<close> after \<open>json.loads\<close>:
  \<^item> \<open>Malformed\<close>: \<open>json.loads\<close> raises \<open>JSONDecodeError\<close>;
  \<^item> \<open>NotObject\<close>: the text is JSON but not an object, so \<open>data.get\<close> raises;
  \<^item> \<open>Obj done resp\<close>: an object; \<open>done\<close> is the truth value of its \<open>done\<close> field
    (false when absent) and \<open>resp\<close> its \<open>response\<close> field.
\<close>

datatype response_field =
    NoResponse
  | RespText string
  | RespOther bool

datatype frame =
    Malformed
  | NotObject
  | Obj bool response_field

text \<open>
  What the backend connection delivers next: a chunk, the end of the body, an
  \<open>httpx.HTTPStatusError\<close> or \<open>httpx.RequestError\<close> (\<open>HttpError\<close>), or any other
  exception (\<open>OtherError\<close>). A backend is the stream of these events that answers a
  prompt; what follows the first event that is not a chunk is never read.
\<close>

datatype event =
    Chunk frame
  | Eof
  | HttpError
  | OtherError

type_synonym backend = "string \<Rightarrow> event stream"

record gen_state =
  has_yielded :: bool
  buffer :: string
  iterations :: int
  natural_completion_detected :: bool
  yielded :: "string list"

definition init_state :: gen_state where
  "init_state = \<lparr>has_yielded = False, buffer = [], iterations = 0,
                  natural_completion_detected = False, yielded = []\<rparr>"

definition yield :: "string \<Rightarrow> gen_state \<Rightarrow> gen_state" where
  "yield s st = st\<lparr>yielded := yielded st @ [s]\<rparr>"

datatype flow = Continue | Break | Raise

text \<open>The loop \<open>for indicator in completion_indicators\<close> after a chunk was yielded.\<close>

fun check_indicators :: "string list \<Rightarrow> gen_state \<Rightarrow> gen_state" where
  "check_indicators [] st = st"
| "check_indicators (indicator # rest) st =
     check_indicators rest
       (if contains (lower indicator) (lower (buffer st))
        then st\<lparr>natural_completion_detected := True\<rparr> else st)"

text \<open>The branch taken when \<open>temp_buffer.find(end_token)\<close> is not \<open>-1\<close>.\<close>

definition found_end_token :: "nat \<Rightarrow> string \<Rightarrow> gen_state \<Rightarrow> gen_state" where
  "found_end_token end_token_pos temp_buffer st =
     (let st1 =
        (if end_token_pos > 0 then
           (let final_chunk = strip (take end_token_pos temp_buffer)
            in if length final_chunk > length (buffer st)
               then yield (drop (length (buffer st)) final_chunk) st else st)
         else st)
      in st1\<lparr>natural_completion_detected := True\<rparr>)"

text \<open>The branch that yields the chunk as it came.\<close>

definition yield_chunk :: "int \<Rightarrow> string \<Rightarrow> string \<Rightarrow> gen_state \<Rightarrow> flow \<times> gen_state" where
  "yield_chunk max_iterations text_chunk temp_buffer st =
     (let st1 = st\<lparr>buffer := temp_buffer, has_yielded := True\<rparr>;
          st2 = yield text_chunk st1;
          st3 = check_indicators completion_indicators st2;
          st4 = st3\<lparr>iterations := iterations st3 + 1\<rparr>
      in if iterations st4 \<ge> max_iterations
         then (Break, if \<not> natural_completion_detected st4 then yield closing st4 else st4)
         else (Continue, st4))"

text \<open>The body of \<open>async for chunk in response.aiter_text()\<close>.\<close>

definition process_chunk :: "int \<Rightarrow> gen_state \<Rightarrow> frame \<Rightarrow> flow \<times> gen_state" where
  "process_chunk max_iterations st fr =
     (case fr of
        Malformed \<Rightarrow> (Continue, st)
      | NotObject \<Rightarrow> (Raise, st)
      | Obj done resp \<Rightarrow>
          if done then (Break, st)
          else
            (case resp of
               NoResponse \<Rightarrow> (Continue, st)
             | RespOther truthy \<Rightarrow> if truthy then (Raise, st) else (Continue, st)
             | RespText text_chunk \<Rightarrow>
                 if text_chunk = [] then (Continue, st)
                 else
                   (let temp_buffer = buffer st @ text_chunk
                    in case find_str temp_buffer end_token of
                         Some end_token_pos \<Rightarrow>
                           (Break, found_end_token end_token_pos temp_buffer st)
                       | None \<Rightarrow> yield_chunk max_iterations text_chunk temp_buffer st)))"

text \<open>
  How the streaming block was left: the loop ended (by \<open>break\<close> or at the end of the
  body), an \<open>httpx\<close> error was caught by the inner handlers, or another exception reached
  the outer handler.
\<close>

datatype loop_exit = LoopEnded | HttpFailed | Raised

text \<open>
  The loop over the backend's events. A backend may send chunks forever, so the loop is
  a partial function: \<open>None\<close> is a generator that never gets past the loop.
\<close>

partial_function (option) stream_loop ::
  "int \<Rightarrow> gen_state \<Rightarrow> event stream \<Rightarrow> (loop_exit \<times> gen_state) option" where
  "stream_loop max_iterations st evs =
     (case shd evs of
        Eof \<Rightarrow> Some (LoopEnded, st)
      | HttpError \<Rightarrow> Some (HttpFailed, st)
      | OtherError \<Rightarrow> Some (Raised, st)
      | Chunk fr \<Rightarrow>
          (case process_chunk max_iterations st fr of
             (Continue, st') \<Rightarrow> stream_loop max_iterations st' (stl evs)
           | (Break, st') \<Rightarrow> Some (LoopEnded, st')
           | (Raise, st') \<Rightarrow> Some (Raised, st')))"

text \<open>Everything after the loop, up to the last statement of the generator.\<close>

definition after_loop :: "string \<Rightarrow> int \<Rightarrow> loop_exit \<Rightarrow> gen_state \<Rightarrow> string list" where
  "after_loop query max_iterations ex st =
     (let st1 =
        (case ex of
           LoopEnded \<Rightarrow>
             (let st' = (if has_yielded st \<and> \<not> natural_completion_detected st
                            \<and> iterations st < max_iterations
                         then yield closing st else st)
              in if \<not> has_yielded st' \<or> strip (buffer st') = []
                 then yield (fallback_answer query) st' else st')
         | HttpFailed \<Rightarrow>
             (if \<not> has_yielded st \<or> strip (buffer st) = []
              then yield (fallback_answer query) st else st)
         | Raised \<Rightarrow> yield (fallback_answer query) st)
      in yielded (if \<not> has_yielded st1 then yield emergency_fallback st1 else st1))"

text \<open>
  The generator: the list of the strings it yields, in order, or \<open>None\<close> when it never
  finishes. The backend is asked with the formatted prompt; the timeout only configures
  the connection.
\<close>

definition generate_answer_streaming ::
  "string \<Rightarrow> search_results \<Rightarrow> int \<Rightarrow> backend \<Rightarrow> string list option" where
  "generate_answer_streaming query sr max_iterations llm =
     map_option (\<lambda>(ex, st). after_loop query max_iterations ex st)
       (stream_loop max_iterations init_state (llm (format_optimized_prompt query sr)))"

section \<open>Search client (search\_service.search\_serper)\<close>

text \<open>
  What \<open>client.post\<close>, \<open>raise_for_status\<close> and \<open>response.json()\<close> end in: the parsed
  result, or the exception raised, with the text of \<open>str(e)\<close>. \<open>HTTPStatusError\<close> carries
  the status code of its response; \<open>RequestError\<close> is an \<open>httpx.RequestError\<close> that is
  neither a timeout nor a connection error; \<open>OtherException\<close> is anything else.
\<close>

datatype http_failure =
    HTTPStatusError int string
  | TimeoutException string
  | ConnectError string
  | RequestError string
  | OtherException string

datatype post_outcome = Responds search_results | Fails http_failure

record http_exception =
  status_code :: int
  detail :: string

definition HTTPException :: "int \<Rightarrow> string \<Rightarrow> http_exception" where
  "HTTPException code text = \<lparr>status_code = code, detail = text\<rparr>"

text \<open>
  The search backend is the outcome of each request sent to it, by the number of the
  request. \<open>search_serper\<close> returns the number of requests it sent with its result; the
  timeout enters the result only as the text of \<open>{timeout}\<close>.
\<close>

type_synonym search_backend = "string \<Rightarrow> nat \<Rightarrow> post_outcome"

definition search_serper ::
  "search_backend \<Rightarrow> string \<Rightarrow> string \<Rightarrow> nat \<times> (http_exception + search_results)" where
  "search_serper serper query timeout_text =
     (1,
      case serper query 0 of
        Responds result \<Rightarrow> Inr result
      | Fails (HTTPStatusError code msg) \<Rightarrow>
          if code = 403
          then Inl (HTTPException 403
                 ''Authentication failed with Serper.dev API. Please check your API key.'')
          else Inl (HTTPException code (''Search API error: '' @ msg))
      | Fails (TimeoutException msg) \<Rightarrow>
          Inl (HTTPException 504
                 (''Search request timed out after '' @ timeout_text @ '' seconds''))
      | Fails (ConnectError msg) \<Rightarrow>
          Inl (HTTPException 503 ''Could not connect to search API'')
      | Fails (RequestError msg) \<Rightarrow>
          Inl (HTTPException 500 (''Request error: '' @ msg))
      | Fails (OtherException msg) \<Rightarrow>
          Inl (HTTPException 500 (''Unexpected error: '' @ msg)))"

section \<open>The unified endpoint (routes.unified\_endpoint)\<close>

record stream_request =
  sr_query :: string
  sr_request_id :: "string option"
  sr_session_id :: "string option"
  sr_model :: "string option"
  sr_language :: "string option"
  sr_max_search_results :: "int option"
  sr_temperature :: "real option"
  sr_max_tokens :: "int option"
  sr_top_p :: "real option"
  sr_top_k :: "int option"
  sr_timeout :: "int option"

text \<open>
  \<open>StreamRequest(query=q)\<close>: the defaults the class declares, which a POST body that
  gives only the query gets. \<open>uuid\<close> is the value of \<open>str(uuid.uuid4())\<close>.
\<close>

definition StreamRequest_defaults :: "string \<Rightarrow> string \<Rightarrow> stream_request" where
  "StreamRequest_defaults uuid q =
     \<lparr>sr_query = q, sr_request_id = Some uuid, sr_session_id = None, sr_model = None,
      sr_language = Some ''en'', sr_max_search_results = Some 5,
      sr_temperature = Some (7 / 10), sr_max_tokens = Some 2048, sr_top_p = Some (9 / 10),
      sr_top_k = Some 40, sr_timeout = Some 180\<rparr>"

datatype endpoint_error = HTTPError http_exception | ValueError

text \<open>
  \<open>int(query_params.get(key, default))\<close> and its \<open>float\<close> twin. \<open>py_int\<close> and \<open>py_float\<close>
  are Python's conversions of a string, \<open>None\<close> where they raise \<open>ValueError\<close>.
\<close>

definition int_param ::
  "(string \<Rightarrow> int option) \<Rightarrow> (string \<rightharpoonup> string) \<Rightarrow> string \<Rightarrow> int \<Rightarrow> endpoint_error + int" where
  "int_param py_int query_params key dflt =
     (case query_params key of
        None \<Rightarrow> Inr dflt
      | Some text \<Rightarrow> (case py_int text of None \<Rightarrow> Inl ValueError | Some v \<Rightarrow> Inr v))"

definition float_param ::
  "(string \<Rightarrow> real option) \<Rightarrow> (string \<rightharpoonup> string) \<Rightarrow> string \<Rightarrow> real \<Rightarrow> endpoint_error + real" where
  "float_param py_float query_params key dflt =
     (case query_params key of
        None \<Rightarrow> Inr dflt
      | Some text \<Rightarrow> (case py_float text of None \<Rightarrow> Inl ValueError | Some v \<Rightarrow> Inr v))"

definition bind_result :: "('e + 'a) \<Rightarrow> ('a \<Rightarrow> 'e + 'b) \<Rightarrow> 'e + 'b" where
  "bind_result r f = (case r of Inl e \<Rightarrow> Inl e | Inr v \<Rightarrow> f v)"

text \<open>
  The branch \<open>if stream_request is None\<close> of the endpoint: a request without a body,
  whose parameters are read from the query string.
\<close>

definition stream_request_from_query ::
  "(string \<Rightarrow> int option) \<Rightarrow> (string \<Rightarrow> real option) \<Rightarrow> string \<Rightarrow> (string \<rightharpoonup> string)
     \<Rightarrow> endpoint_error + stream_request" where
  "stream_request_from_query py_int py_float uuid query_params =
     (case query_params ''query'' of
        None \<Rightarrow> Inl (HTTPError (HTTPException 400 ''Query parameter is required''))
      | Some q \<Rightarrow>
          if q = [] then Inl (HTTPError (HTTPException 400 ''Query parameter is required''))
          else
            bind_result (int_param py_int query_params ''max_search_results'' 5) (\<lambda>msr.
            bind_result (float_param py_float query_params ''temperature'' (7 / 10)) (\<lambda>temp.
            bind_result (int_param py_int query_params ''max_tokens'' 4096) (\<lambda>mt.
            bind_result (float_param py_float query_params ''top_p'' (9 / 10)) (\<lambda>tp.
            bind_result (int_param py_int query_params ''top_k'' 40) (\<lambda>tk.
            bind_result (int_param py_int query_params ''timeout'' 300) (\<lambda>tmo.
              Inr \<lparr>sr_query = q,
                   sr_request_id = Some (dict_get (query_params ''request_id'') uuid),
                   sr_session_id = query_params ''session_id'',
                   sr_model = query_params ''model'',
                   sr_language = Some (dict_get (query_params ''language'') ''en''),
                   sr_max_search_results = Some msr,
                   sr_temperature = Some temp,
                   sr_max_tokens = Some mt,
                   sr_top_p = Some tp,
                   sr_top_k = Some tk,
                   sr_timeout = Some tmo\<rparr>)))))))"

section \<open>Registry of active streams\<close>

record stream_data =
  start_time :: real
  sd_session_id :: string
  sd_query :: string
  disconnected :: bool

type_synonym registry = "string \<rightharpoonup> stream_data"

text \<open>\<open>active_streams[request_id] = {...}\<close> in the endpoint.\<close>

definition track_stream :: "real \<Rightarrow> string \<Rightarrow> string \<Rightarrow> string \<Rightarrow> registry \<Rightarrow> registry" where
  "track_stream now request_id session_id q active_streams =
     active_streams(request_id \<mapsto>
       \<lparr>start_time = now, sd_session_id = session_id, sd_query = q, disconnected = False\<rparr>)"



definition is_disconnected :: "registry \<Rightarrow> string \<Rightarrow> bool" where
  "is_disconnected active_streams request_id =
     (case active_streams request_id of
        None \<Rightarrow> False
      | Some stream_data \<Rightarrow> disconnected stream_data)"

section \<open>Stream orchestrator (routes.generate\_unified\_stream)\<close>

text \<open>
  What the stream yields: an envelope, or the marker \<open>data: [DONE]\<close>. The envelope's
  timestamp and the elapsed times in its metadata are clock readings and are left out.
\<close>

datatype meta_value = MStr string | MInt int | MBool bool

datatype event_data = Text string | Result organic_result

record envelope =
  ev_type :: string
  ev_data :: event_data
  ev_request_id :: string
  ev_session_id :: string
  ev_metadata :: "(string \<times> meta_value) list"

datatype sse = Envelope envelope | Done

text \<open>The identifiers of the request, which \<open>format_sse\<close> closes over.\<close>

record ids =
  request_id :: string
  session_id :: string

definition format_sse :: "ids \<Rightarrow> string \<Rightarrow> event_data \<Rightarrow> (string \<times> meta_value) list \<Rightarrow> sse" where
  "format_sse i event_type dat metadata =
     Envelope \<lparr>ev_type = event_type, ev_data = dat, ev_request_id = request_id i,
               ev_session_id = session_id i, ev_metadata = metadata\<rparr>"

definition MAX_LLM_ITERATIONS :: int where
  "MAX_LLM_ITERATIONS = 150"

text \<open>
  The registry is shared with the rest of the process, so the orchestrator is given what
  each of its calls of \<open>is_disconnected\<close> finds: \<open>polls k\<close> is the registry at the call
  number \<open>k\<close> (from 0) of one stream.
\<close>

type_synonym polls = "nat \<Rightarrow> registry"

text \<open>An exception as a handler sees it: \<open>type(e).__name__\<close> and \<open>str(e)\<close>.\<close>

record exn =
  exn_type :: string
  exn_text :: string

text \<open>\<open>str(e)\<close> of the \<open>HTTPException\<close> that \<open>search_serper\<close> raises.\<close>

definition str_http_exception :: "http_exception \<Rightarrow> string" where
  "str_http_exception e = str_int (status_code e) @ '': '' @ detail e"

text \<open>Python's \<open>xs[:n]\<close> for an integer \<open>n\<close> of either sign.\<close>

definition slice_to :: "int \<Rightarrow> 'a list \<Rightarrow> 'a list" where
  "slice_to n xs = (if n \<ge> 0 then take (nat n) xs else take (nat (int (length xs) + n)) xs)"

text \<open>
  The loop over \<open>search_results['organic'][:max_results]\<close>. It returns whether the stream
  returned (the client was found disconnected), the number of the next poll, and the
  output so far.
\<close>

fun stream_results ::
  "ids \<Rightarrow> polls \<Rightarrow> int \<Rightarrow> nat \<Rightarrow> nat \<Rightarrow> organic_result list \<Rightarrow> sse list \<Rightarrow> bool \<times> nat \<times> sse list" where
  "stream_results i ps max_results k idx [] out = (False, k, out)"
| "stream_results i ps max_results k idx (result # rest) out =
     (if is_disconnected (ps k) (request_id i) then (True, Suc k, out)
      else stream_results i ps max_results (Suc k) (Suc idx) rest
             (out @ [format_sse i ''search_result'' (Result result)
                       [(''position'', MInt (int idx + 1)), (''total'', MInt max_results)]]))"

text \<open>
  The loop \<open>async for chunk in generate_answer_streaming(...)\<close> over what the generator
  yields, with the counters \<open>chunk_count\<close>, \<open>total_tokens\<close> and \<open>has_content\<close>.
\<close>

record gen_counters =
  total_tokens :: nat
  chunk_count :: nat
  has_content :: bool

fun stream_chunks ::
  "ids \<Rightarrow> polls \<Rightarrow> nat \<Rightarrow> gen_counters \<Rightarrow> string list \<Rightarrow> sse list
     \<Rightarrow> bool \<times> gen_counters \<times> sse list" where
  "stream_chunks i ps k c [] out = (False, c, out)"
| "stream_chunks i ps k c (chunk # rest) out =
     (if is_disconnected (ps k) (request_id i) then (True, c, out)
      else if chunk \<noteq> [] then
        (let c' = \<lparr>total_tokens = total_tokens c + word_count False chunk,
                   chunk_count = chunk_count c + 1, has_content = True\<rparr>
         in stream_chunks i ps (Suc k) c' rest
              (out @ [format_sse i ''answer_chunk'' (Text chunk)
                        [(''step'', MStr ''generation_chunk''),
                         (''chunk_id'', MInt (int (chunk_count c'))),
                         (''tokens'', MInt (int (word_count False chunk)))]]))
      else stream_chunks i ps (Suc k) c rest out)"

definition status_event :: "ids \<Rightarrow> string \<Rightarrow> (string \<times> meta_value) list \<Rightarrow> sse" where
  "status_event i text metadata = format_sse i ''status'' (Text text) metadata"

definition search_error_event :: "ids \<Rightarrow> exn \<Rightarrow> sse" where
  "search_error_event i e =
     format_sse i ''error'' (Text (''Search error: '' @ exn_text e))
       [(''step'', MStr ''search_error''), (''error_type'', MStr (exn_type e))]"

definition no_content_fallback :: string where
  "no_content_fallback =
     ''I couldn't generate a specific answer based on the search results. Please try rephrasing your question.''"

definition fallback_chunk_event :: "ids \<Rightarrow> sse" where
  "fallback_chunk_event i =
     format_sse i ''answer_chunk'' (Text no_content_fallback) [(''step'', MStr ''fallback'')]"

definition generation_complete_event :: "ids \<Rightarrow> gen_counters \<Rightarrow> sse" where
  "generation_complete_event i c =
     status_event i ''Generation completed successfully''
       [(''step'', MStr ''generation_complete''),
        (''total_tokens'', MInt (int (total_tokens c))),
        (''chunk_count'', MInt (int (chunk_count c))),
        (''is_complete'', MBool True)]"

definition complete_event :: "ids \<Rightarrow> sse" where
  "complete_event i = status_event i ''Request completed'' [(''step'', MStr ''complete'')]"

text \<open>
  Part 3 and 4 of the stream, entered at poll \<open>k\<close> with the search results to use and
  the output so far. \<open>None\<close> is a stream that never ends, because the generator never
  does. With search results of the types above the generator raises nothing into the
  stream, so the handlers of a generation error and of an unhandled error have no case.
\<close>

definition generation_phase ::
  "ids \<Rightarrow> stream_request \<Rightarrow> backend \<Rightarrow> polls \<Rightarrow> nat \<Rightarrow> search_results \<Rightarrow> sse list
     \<Rightarrow> sse list option" where
  "generation_phase i req llm ps k results out =
     (if is_disconnected (ps k) (request_id i) then Some out
      else
        (let out1 = out @ [status_event i ''Generating answer...''
                             [(''step'', MStr ''generation_start'')]]
         in case generate_answer_streaming (sr_query req) results MAX_LLM_ITERATIONS llm of
              None \<Rightarrow> None
            | Some chunks \<Rightarrow>
                (let r = stream_chunks i ps (Suc k)
                           \<lparr>total_tokens = 0, chunk_count = 0, has_content = False\<rparr> chunks out1;
                     c = fst (snd r);
                     out2 = snd (snd r)
                 in if fst r then Some out2
                    else
                      (let out3 = (if \<not> has_content c then out2 @ [fallback_chunk_event i]
                                   else out2)
                       in Some (out3 @ [generation_complete_event i c, complete_event i, Done])))))"

definition generate_unified_stream ::
  "ids \<Rightarrow> stream_request \<Rightarrow> search_backend \<Rightarrow> backend \<Rightarrow> polls \<Rightarrow> sse list option" where
  "generate_unified_stream i req serper llm ps =
     (let out = [status_event i ''Processing query'' [(''step'', MStr ''init'')],
                 status_event i ''Searching the web...'' [(''step'', MStr ''search_start'')]]
      in case snd (search_serper serper (sr_query req) ''30.0'') of
           Inl e \<Rightarrow>
             generation_phase i req llm ps 0 empty_results
               (out @ [search_error_event i
                         \<lparr>exn_type = ''HTTPException'', exn_text = str_http_exception e\<rparr>])
         | Inr results \<Rightarrow>
             if is_disconnected (ps 0) (request_id i) then Some out
             else
               (let found = dict_get (organic results) [];
                    organic_count = int (length found);
                    out1 = out @ [status_event i ''Search completed''
                                    [(''step'', MStr ''search_complete''),
                                     (''result_count'', MInt organic_count)]]
                in if found \<noteq> [] then
                     (case sr_max_search_results req of
                        None \<Rightarrow>
                          generation_phase i req llm ps 1 empty_results
                            (out1 @ [search_error_event i
                               \<lparr>exn_type = ''TypeError'',
                                exn_text = [CHR 0x27] @ ''<'' @ [CHR 0x27]
                                  @ '' not supported between instances of ''
                                  @ [CHR 0x27] @ ''int'' @ [CHR 0x27] @ '' and ''
                                  @ [CHR 0x27] @ ''NoneType'' @ [CHR 0x27]\<rparr>])
                      | Some m \<Rightarrow>
                          (let max_results = min m organic_count;
                               r = stream_results i ps max_results 1 0
                                     (slice_to max_results found) out1
                           in if fst r then Some (snd (snd r))
                              else generation_phase i req llm ps (fst (snd r)) results
                                     (snd (snd r))))
                   else generation_phase i req llm ps 1 results out1))"

section \<open>Notions used in the statements\<close>

definition is_answer_chunk :: "sse \<Rightarrow> bool" where
  "is_answer_chunk x = (case x of Done \<Rightarrow> False | Envelope e \<Rightarrow> ev_type e = ''answer_chunk'')"

definition is_error :: "sse \<Rightarrow> bool" where
  "is_error x = (case x of Done \<Rightarrow> False | Envelope e \<Rightarrow> ev_type e = ''error'')"

definition is_search_result :: "sse \<Rightarrow> bool" where
  "is_search_result x = (case x of Done \<Rightarrow> False | Envelope e \<Rightarrow> ev_type e = ''search_result'')"

text \<open>The text of an \<open>answer_chunk\<close> envelope.\<close>

fun answer_text :: "sse \<Rightarrow> string option" where
  "answer_text Done = None"
| "answer_text (Envelope e) =
     (if ev_type e = ''answer_chunk''
      then (case ev_data e of Text t \<Rightarrow> Some t | Result r \<Rightarrow> None)
      else None)"

text \<open>
  The number of polls a stream makes before the one that opens the generation phase,
  when none of them finds the client disconnected.
\<close>

definition search_polls :: "stream_request \<Rightarrow> http_exception + search_results \<Rightarrow> nat" where
  "search_polls req searched =
     (case searched of
        Inl e \<Rightarrow> 0
      | Inr results \<Rightarrow>
          (let found = dict_get (organic results) []
           in case sr_max_search_results req of
                None \<Rightarrow> 1
              | Some m \<Rightarrow> 1 + length (slice_to (min m (int (length found))) found)))"

text \<open>A frame the loop passes over without any effect.\<close>

fun ignored :: "frame \<Rightarrow> bool" where
  "ignored Malformed = True"
| "ignored (Obj done NoResponse) = (\<not> done)"
| "ignored (Obj done (RespOther truthy)) = (\<not> done \<and> \<not> truthy)"
| "ignored (Obj done (RespText t)) = (\<not> done \<and> t = [])"
| "ignored NotObject = False"

text \<open>An event that ends the loop in whatever state it is read.\<close>

fun ends :: "event \<Rightarrow> bool" where
  "ends Eof = True"
| "ends HttpError = True"
| "ends OtherError = True"
| "ends (Chunk NotObject) = True"
| "ends (Chunk (Obj done resp)) = (done \<or> resp = RespOther True)"
| "ends (Chunk Malformed) = False"

text \<open>The non-empty text fragments among the events, in order.\<close>

fun content_texts :: "event list \<Rightarrow> string list" where
  "content_texts [] = []"
| "content_texts (Chunk (Obj False (RespText t)) # es) =
     (if t = [] then content_texts es else t # content_texts es)"
| "content_texts (e # es) = content_texts es"

text \<open>
  A finite run of events within which the loop is sure to end: it holds an ending
  event, or as many text fragments as the cap asks for, or text fragments whose
  concatenation holds the end token.
\<close>

definition stops :: "int \<Rightarrow> event list \<Rightarrow> bool" where
  "stops max_iterations es =
     (list_ex ends es
      \<or> max 1 max_iterations \<le> int (length (content_texts es))
      \<or> contains end_token (concat (content_texts es)))"

text \<open>Some completion indicator occurs in the buffer, whatever the case of the letters.\<close>

definition indicator_in :: "string \<Rightarrow> bool" where
  "indicator_in buf = list_ex (\<lambda>indicator. contains (lower indicator) (lower buf)) completion_indicators"

text \<open>
  The loop of the generator over a finite run of events: how it was left, if it was,
  and the state then.
\<close>

fun list_loop :: "int \<Rightarrow> gen_state \<Rightarrow> event list \<Rightarrow> loop_exit option \<times> gen_state" where
  "list_loop max_iterations st [] = (None, st)"
| "list_loop max_iterations st (Eof # es) = (Some LoopEnded, st)"
| "list_loop max_iterations st (HttpError # es) = (Some HttpFailed, st)"
| "list_loop max_iterations st (OtherError # es) = (Some Raised, st)"
| "list_loop max_iterations st (Chunk fr # es) =
     (case process_chunk max_iterations st fr of
        (Continue, st') \<Rightarrow> list_loop max_iterations st' es
      | (Break, st') \<Rightarrow> (Some LoopEnded, st')
      | (Raise, st') \<Rightarrow> (Some Raised, st'))"

text \<open>
  What holds of the generator's state between two events of the loop, and what holds
  once the loop has been left: the fragments yielded are counted by \<open>iterations\<close>, up
  to the one fragment that the end token or the cap may add.
\<close>

definition running :: "int \<Rightarrow> gen_state \<Rightarrow> bool" where
  "running max_iterations st =
     (find_str (buffer st) end_token = None
      \<and> int (length (yielded st)) = iterations st
      \<and> (has_yielded st \<longleftrightarrow> 0 < iterations st)
      \<and> (iterations st = 0 \<or> iterations st < max_iterations))"

definition left_loop :: "int \<Rightarrow> gen_state \<Rightarrow> bool" where
  "left_loop max_iterations st =
     (iterations st \<le> int (length (yielded st))
      \<and> int (length (yielded st)) \<le> iterations st + 1
      \<and> iterations st \<le> max 1 max_iterations
      \<and> (has_yielded st \<longleftrightarrow> 0 < iterations st)
      \<and> (int (length (yielded st)) = iterations st + 1
           \<longrightarrow> natural_completion_detected st \<or> max_iterations \<le> iterations st))"

section \<open>Example inputs\<close>

text \<open>
  One request for the query \<open>capital of France\<close>, with the search backends, the language
  model backend and the registries that the instances below are taken at. The registry
  \<open>registry_connected\<close> is the one the endpoint leaves when it has tracked the stream;
  \<open>registry_disconnected\<close> has the flag of the same entry set.
\<close>

definition example_ids :: ids where
  "example_ids = \<lparr>request_id = ''r1'', session_id = ''s1''\<rparr>"

definition example_request :: stream_request where
  "example_request = StreamRequest_defaults ''r1'' ''capital of France''"

definition search_times_out :: search_backend where
  "search_times_out q n = Fails (TimeoutException ''timed out'')"

definition example_result :: organic_result where
  "example_result = \<lparr>title = Some ''Paris'', snippet = Some ''Paris is the capital of France.'',
                     link = Some ''https://example.org/paris''\<rparr>"

definition example_results :: search_results where
  "example_results = \<lparr>organic = Some [example_result], answerBox = None, answer_box_alt = None\<rparr>"

definition search_finds_one :: search_backend where
  "search_finds_one q n = Responds example_results"

definition backend_ends_at_once :: backend where
  "backend_ends_at_once prompt = sconst Eof"

definition registry_connected :: registry where
  "registry_connected = track_stream 0 ''r1'' ''s1'' ''capital of France'' Map.empty"

definition registry_disconnected :: registry where
  "registry_disconnected =
     Map.empty(''r1'' \<mapsto> \<lparr>start_time = 0, sd_session_id = ''s1'',
                           sd_query = ''capital of France'', disconnected = True\<rparr>)"

definition polls_connected :: polls where
  "polls_connected k = registry_connected"

definition polls_disconnected :: polls where
  "polls_disconnected k = registry_disconnected"

definition polls_disconnected_after_search :: polls where
  "polls_disconnected_after_search k = (if k = 0 then registry_connected else registry_disconnected)"



section \<open>Properties\<close>

subsection \<open>The generator's loop on a finite run of events\<close>

lemma stream_loop_shift:
  "stream_loop mi st (es @- s) =
     (case list_loop mi st es of
        (Some ex, st') \<Rightarrow> Some (ex, st')
      | (None, st') \<Rightarrow> stream_loop mi st' s)"
proof (induction es arbitrary: st)
  case Nil
  show ?case by simp
next
  case (Cons e es)
  show ?case
  proof (cases e)
    case (Chunk fr)
    obtain fl st' where p: "process_chunk mi st fr = (fl, st')"
      by (cases "process_chunk mi st fr")
    show ?thesis
      using Cons.IH [of st'] p Chunk
      by (subst stream_loop.simps) (simp split: flow.splits)
  qed (subst stream_loop.simps, simp)+
qed

lemma check_indicators_eq:
  "check_indicators inds st =
     st\<lparr>natural_completion_detected :=
          natural_completion_detected st
          \<or> list_ex (\<lambda>indicator. contains (lower indicator) (lower (buffer st))) inds\<rparr>"
  by (induction inds arbitrary: st) auto

lemma process_ignored: "ignored fr \<Longrightarrow> process_chunk mi st fr = (Continue, st)"
  by (cases fr rule: ignored.cases) (auto simp: process_chunk_def)

lemma process_text_plain:
  assumes "t \<noteq> []" "find_str (buffer st @ t) end_token = None"
  shows "process_chunk mi st (Obj False (RespText t)) =
     (let st' = st\<lparr>buffer := buffer st @ t, has_yielded := True,
                   yielded := yielded st @ [t],
                   natural_completion_detected :=
                     natural_completion_detected st \<or> indicator_in (buffer st @ t),
                   iterations := iterations st + 1\<rparr>
      in if mi \<le> iterations st + 1
         then (Break, if natural_completion_detected st \<or> indicator_in (buffer st @ t) then st'
                      else st'\<lparr>yielded := yielded st @ [t, closing]\<rparr>)
         else (Continue, st'))"
  using assms
  by (simp add: process_chunk_def yield_chunk_def check_indicators_eq indicator_in_def
      yield_def Let_def)

lemma process_text_end:
  assumes "t \<noteq> []" "find_str (buffer st @ t) end_token = Some p"
  shows "process_chunk mi st (Obj False (RespText t)) =
           (Break, found_end_token p (buffer st @ t) st)"
  using assms by (simp add: process_chunk_def)

lemma list_loop_ignored:
  "list_all ignored frs \<Longrightarrow> list_loop mi st (map Chunk frs @ es) = list_loop mi st es"
  by (induction frs) (auto simp: process_ignored)

subsection \<open>Searching a string\<close>





lemma end_token_nonempty: "end_token \<noteq> []"
  by (simp add: end_token_def)

lemma strip_Nil: "strip [] = []"
  by (simp add: strip_def)

subsection \<open>The end token in the first fragment\<close>

text \<open>
  Claim C9. When the first text fragment that the generator reads holds the end token
  after some answer text (the frames before it being ones the loop passes over), the
  generator yields that text, stripped, and then the templated fallback answer and the
  emergency apology: the branch that found the end token sets neither \<open>has_yielded\<close>
  nor the buffer, so both closing checks see a generator that has yielded nothing.
\<close>

theorem sentinel_before_any_fragment:
  assumes backend: "llm (format_optimized_prompt q sr) =
                      map Chunk skipped @- (Chunk (Obj False (RespText t)) ## rest)"
    and skipped: "list_all ignored skipped"
    and found: "find_str t end_token = Some p"
    and answer: "strip (take p t) \<noteq> []"
  shows "generate_answer_streaming q sr mi llm =
           Some [strip (take p t), fallback_answer q, emergency_fallback]"
proof -
  from answer have p: "p > 0" and t: "t \<noteq> []"
    by (auto simp: strip_Nil intro: gr0I)
  have "process_chunk mi init_state (Obj False (RespText t)) =
          (Break, found_end_token p t init_state)"
    using process_text_end [of t init_state p mi] t found by (simp add: init_state_def)
  then have "list_loop mi init_state (map Chunk skipped @ [Chunk (Obj False (RespText t))]) =
          (Some LoopEnded, found_end_token p t init_state)"
    using skipped by (simp add: list_loop_ignored)
  moreover have "llm (format_optimized_prompt q sr) =
          (map Chunk skipped @ [Chunk (Obj False (RespText t))]) @- rest"
    using backend by simp
  ultimately have "stream_loop mi init_state (llm (format_optimized_prompt q sr)) =
          Some (LoopEnded, found_end_token p t init_state)"
    by (simp only: stream_loop_shift) simp
  then show ?thesis
    using p answer
    by (simp add: generate_answer_streaming_def after_loop_def found_end_token_def
        init_state_def yield_def Let_def)
qed

theorem sentinel_before_any_fragment_witness:
  "generate_answer_streaming ''capital of France'' empty_results 100
     (\<lambda>prompt. Chunk (Obj False (RespText ''Paris is the capital.END OF RESPONSE'')) ## sconst Eof)
   = Some [''Paris is the capital.'', fallback_answer ''capital of France'', emergency_fallback]"
proof -
  have f: "find_str ''Paris is the capital.END OF RESPONSE'' end_token = Some 21"
    by (simp add: end_token_def)
  have s: "strip (take 21 ''Paris is the capital.END OF RESPONSE'') = ''Paris is the capital.''"
    by (simp add: strip_def is_space_def)
  show ?thesis
    using sentinel_before_any_fragment [where skipped = "[]" and p = 21
        and t = "''Paris is the capital.END OF RESPONSE''" and rest = "sconst Eof"
        and q = "''capital of France''" and sr = empty_results and mi = 100
        and llm = "\<lambda>prompt. Chunk (Obj False (RespText ''Paris is the capital.END OF RESPONSE''))
                     ## sconst Eof"]
      f s
    by simp
qed

subsection \<open>The end token split over two fragments\<close>

lemma no_indicator_paris: "\<not> indicator_in ''Paris is the capital.END OF''"
  by (simp add: indicator_in_def completion_indicators_def end_token_def contains_def lower_def
      lower_char_def char_of_def bit_Suc_0_iff)

text \<open>
  Claim C1. The backend sends \<open>Paris is the capital.END OF RESPONSE\<close> in two fragments,
  cut inside the end token. The first fragment holds no complete end token, so it is
  yielded as it came, with the part \<open>END OF\<close> of the token; when the second fragment
  completes the token, the text before it is no longer than what was yielded, and
  nothing more comes out. The generator yields \<open>Paris is the capital.END OF\<close>, not
  \<open>Paris is the capital.\<close>.
\<close>

theorem split_sentinel_is_emitted:
  "generate_answer_streaming ''capital of France'' empty_results 100
     (\<lambda>prompt. Chunk (Obj False (RespText ''Paris is the capital.END OF''))
        ## Chunk (Obj False (RespText '' RESPONSE'')) ## sconst Eof)
   = Some [''Paris is the capital.END OF'']"
proof -
  let ?c1 = "''Paris is the capital.END OF''"
  let ?c2 = "'' RESPONSE''"
  let ?st1 = "\<lparr>has_yielded = True, buffer = ?c1, iterations = 1,
               natural_completion_detected = False, yielded = [?c1]\<rparr>"
  have f1: "find_str ([] @ ?c1) end_token = None"
    by (simp add: end_token_def)
  have p1: "process_chunk 100 init_state (Obj False (RespText ?c1)) = (Continue, ?st1)"
    using process_text_plain [of ?c1 init_state 100] f1 no_indicator_paris
    by (simp add: init_state_def)
  have f2: "find_str (?c1 @ ?c2) end_token = Some 21"
    by (simp add: end_token_def)
  have s2: "strip (take 21 (?c1 @ ?c2)) = ''Paris is the capital.''"
    by (simp add: strip_def is_space_def)
  have p2: "process_chunk 100 ?st1 (Obj False (RespText ?c2)) =
              (Break, ?st1\<lparr>natural_completion_detected := True\<rparr>)"
    using process_text_end [of ?c2 ?st1 21 100] f2 s2
    by (simp add: found_end_token_def)
  have "list_loop 100 init_state
          [Chunk (Obj False (RespText ?c1)), Chunk (Obj False (RespText ?c2))]
          = (Some LoopEnded, ?st1\<lparr>natural_completion_detected := True\<rparr>)"
    by (simp add: p1 p2)
  then have "stream_loop 100 init_state
               ([Chunk (Obj False (RespText ?c1)), Chunk (Obj False (RespText ?c2))] @- sconst Eof)
             = Some (LoopEnded, ?st1\<lparr>natural_completion_detected := True\<rparr>)"
    by (simp only: stream_loop_shift) simp
  moreover have "strip ?c1 \<noteq> []"
    by (simp add: strip_def is_space_def)
  ultimately show ?thesis
    by (simp add: generate_answer_streaming_def after_loop_def)
qed

subsection \<open>Errors of the search client\<close>

text \<open>
  Claim C7. When the request to the search backend fails, \<open>search_serper\<close> has sent
  exactly one request and raises an \<open>HTTPException\<close> fixed by the kind of the failure:
  a status error raises the status of the response (403 with the authentication
  message, any other status with the text of the error), a timeout raises 504, a
  connection error 503, any other request error or exception 500 with the text of the
  error. Nothing else of the backend enters the result: what a second request would get
  is never asked for.
\<close>

theorem search_serper_error_mapping:
  assumes "serper q 0 = Fails f"
  shows "fst (search_serper serper q tmo) = 1
    \<and> (\<exists>e. snd (search_serper serper q tmo) = Inl e
          \<and> status_code e =
              (case f of
                 HTTPStatusError code msg \<Rightarrow> code
               | TimeoutException msg \<Rightarrow> 504
               | ConnectError msg \<Rightarrow> 503
               | RequestError msg \<Rightarrow> 500
               | OtherException msg \<Rightarrow> 500)
          \<and> detail e =
              (case f of
                 HTTPStatusError code msg \<Rightarrow>
                   if code = 403
                   then ''Authentication failed with Serper.dev API. Please check your API key.''
                   else ''Search API error: '' @ msg
               | TimeoutException msg \<Rightarrow> ''Search request timed out after '' @ tmo @ '' seconds''
               | ConnectError msg \<Rightarrow> ''Could not connect to search API''
               | RequestError msg \<Rightarrow> ''Request error: '' @ msg
               | OtherException msg \<Rightarrow> ''Unexpected error: '' @ msg))
    \<and> (\<forall>serper'. serper' q 0 = Fails f
          \<longrightarrow> search_serper serper' q tmo = search_serper serper q tmo)"
  using assms
  by (cases f) (simp_all add: search_serper_def HTTPException_def)

theorem search_serper_error_mapping_witness:
  "fst (search_serper (\<lambda>q n. if n = 0 then Fails (TimeoutException ''timed out'')
                               else Responds empty_results) ''capital of France'' ''30.0'') = 1
   \<and> (\<exists>e. snd (search_serper (\<lambda>q n. if n = 0 then Fails (TimeoutException ''timed out'')
                               else Responds empty_results) ''capital of France'' ''30.0'') = Inl e
         \<and> status_code e = 504
         \<and> detail e = ''Search request timed out after 30.0 seconds'')"
proof -
  let ?serper = "\<lambda>q n. if n = 0 then Fails (TimeoutException ''timed out'')
                       else Responds empty_results"
  have first: "?serper ''capital of France'' 0 = Fails (TimeoutException ''timed out'')"
    by simp
  note inst = search_serper_error_mapping [of ?serper "''capital of France''"
      "TimeoutException ''timed out''" "''30.0''", OF first]
  from inst [THEN conjunct1] inst [THEN conjunct2, THEN conjunct1]
  show ?thesis by simp
qed

subsection \<open>Defaults of a request given by its query string\<close>

text \<open>
  Claim C6. A GET request that gives only \<open>query\<close> is processed with
  \<open>max_search_results = 5\<close>, \<open>temperature = 0.7\<close>, \<open>top_p = 0.9\<close> and \<open>top_k = 40\<close>,
  as \<open>StreamRequest\<close> declares them, but with \<open>max_tokens = 4096\<close> and
  \<open>timeout = 300\<close>, where \<open>StreamRequest\<close> declares 2048 and 180. A request without
  \<open>query\<close> is refused with status 400.
\<close>

theorem get_defaults_differ_from_declared:
  "stream_request_from_query py_int py_float uuid [''query'' \<mapsto> ''capital of France'']
     = Inr ((StreamRequest_defaults uuid ''capital of France'')
              \<lparr>sr_max_tokens := Some 4096, sr_timeout := Some 300\<rparr>)
   \<and> sr_max_tokens (StreamRequest_defaults uuid ''capital of France'') = Some 2048
   \<and> sr_timeout (StreamRequest_defaults uuid ''capital of France'') = Some 180
   \<and> stream_request_from_query py_int py_float uuid Map.empty
       = Inl (HTTPError (HTTPException 400 ''Query parameter is required''))"
  by (simp add: stream_request_from_query_def StreamRequest_defaults_def int_param_def
      float_param_def bind_result_def dict_get_def)

subsection \<open>When the generator's loop ends\<close>

lemma frame_cases:
  obtains (skip) "ignored fr" | (stop) "ends (Chunk fr)"
        | (content) t where "fr = Obj False (RespText t)" "t \<noteq> []"
proof (cases fr)
  case (Obj d resp)
  then show ?thesis using that by (cases resp; cases d) auto
qed (use that in auto)

lemma process_ends: "ends (Chunk fr) \<Longrightarrow> \<exists>fl. process_chunk mi st fr = (fl, st) \<and> fl \<noteq> Continue"
  by (cases "Chunk fr" rule: ends.cases) (auto simp: process_chunk_def)

lemma content_texts_ignored: "ignored fr \<Longrightarrow> content_texts (Chunk fr # es) = content_texts es"
  by (cases fr rule: ignored.cases) auto

lemma content_texts_text: "t \<noteq> [] \<Longrightarrow> content_texts (Chunk (Obj False (RespText t)) # es) = t # content_texts es"
  by simp

lemma text_not_ends: "\<not> ends (Chunk (Obj False (RespText t)))"
  by simp

lemma ignored_not_ends: "ignored fr \<Longrightarrow> \<not> ends (Chunk fr)"
  by (cases fr rule: ignored.cases) auto

lemma list_loop_exits:
  assumes "find_str (buffer st) end_token = None"
    and "list_ex ends es
         \<or> max 1 (mi - iterations st) \<le> int (length (content_texts es))
         \<or> find_str (buffer st @ concat (content_texts es)) end_token \<noteq> None"
  shows "fst (list_loop mi st es) \<noteq> None"
  using assms
proof (induction es arbitrary: st)
  case Nil
  then show ?case by simp
next
  case (Cons e es)
  show ?case
  proof (cases e)
    case (Chunk fr)
    show ?thesis
    proof (cases fr rule: frame_cases)
      case skip
      then have "list_loop mi st (e # es) = list_loop mi st es"
        using Chunk by (simp add: process_ignored)
      moreover have "fst (list_loop mi st es) \<noteq> None"
        using Cons.prems skip Chunk
        by (intro Cons.IH) (auto simp: content_texts_ignored ignored_not_ends)
      ultimately show ?thesis by simp
    next
      case stop
      then obtain fl where "process_chunk mi st fr = (fl, st)" "fl \<noteq> Continue"
        using process_ends by blast
      then show ?thesis using Chunk by (cases fl) auto
    next
      case (content t)
      show ?thesis
      proof (cases "find_str (buffer st @ t) end_token")
        case (Some p)
        then show ?thesis using Chunk content by (simp add: process_text_end)
      next
        case None
        show ?thesis
        proof (cases "mi \<le> iterations st + 1")
          case True
          then show ?thesis using Chunk content None by (simp add: process_text_plain Let_def)
        next
          case False
          let ?st' = "st\<lparr>buffer := buffer st @ t, has_yielded := True,
                   yielded := yielded st @ [t],
                   natural_completion_detected :=
                     natural_completion_detected st \<or> indicator_in (buffer st @ t),
                   iterations := iterations st + 1\<rparr>"
          have step: "list_loop mi st (e # es) = list_loop mi ?st' es"
            using Chunk content None False by (simp add: process_text_plain Let_def)
          have "fst (list_loop mi ?st' es) \<noteq> None"
          proof (rule Cons.IH)
            show "find_str (buffer ?st') end_token = None" using None by simp
            show "list_ex ends es
                \<or> max 1 (mi - iterations ?st') \<le> int (length (content_texts es))
                \<or> find_str (buffer ?st' @ concat (content_texts es)) end_token \<noteq> None"
              using Cons.prems(2) Chunk content False by auto
          qed
          then show ?thesis using step by simp
        qed
      qed
    qed
  qed simp_all
qed

lemma running_left_loop: "running mi st \<Longrightarrow> left_loop mi st"
  by (auto simp: running_def left_loop_def)

lemma process_chunk_inv:
  assumes "running mi st"
  shows "case process_chunk mi st fr of
           (Continue, st') \<Rightarrow> running mi st'
         | (fl, st') \<Rightarrow> left_loop mi st'"
proof (cases fr rule: frame_cases)
  case skip
  then show ?thesis using assms by (simp add: process_ignored)
next
  case stop
  then obtain fl where "process_chunk mi st fr = (fl, st)" "fl \<noteq> Continue"
    using process_ends by blast
  then show ?thesis using assms by (cases fl) (auto simp: running_left_loop)
next
  case (content t)
  show ?thesis
  proof (cases "find_str (buffer st @ t) end_token")
    case (Some p)
    then show ?thesis using content assms
      by (auto simp: process_text_end found_end_token_def yield_def Let_def
          running_def left_loop_def)
  next
    case None
    then show ?thesis using content assms
      by (auto simp: process_text_plain Let_def running_def left_loop_def)
  qed
qed

lemma list_loop_inv:
  "running mi st \<Longrightarrow>
     (case list_loop mi st es of
        (None, st') \<Rightarrow> running mi st'
      | (Some ex, st') \<Rightarrow> left_loop mi st')"
proof (induction es arbitrary: st)
  case Nil
  then show ?case by simp
next
  case (Cons e es)
  show ?case
  proof (cases e)
    case (Chunk fr)
    obtain fl st' where p: "process_chunk mi st fr = (fl, st')"
      by (cases "process_chunk mi st fr")
    show ?thesis
      using process_chunk_inv [OF Cons.prems, of fr] p Chunk Cons.IH [of st']
      by (cases fl) auto
  qed (use Cons.prems in \<open>auto simp: running_left_loop\<close>)
qed

lemma running_init: "running mi init_state"
  by (simp add: running_def init_state_def end_token_def)

lemma after_loop_bounds:
  assumes "left_loop mi st"
  shows "after_loop q mi ex st \<noteq> [] \<and> int (length (after_loop q mi ex st)) \<le> max 1 mi + 2"
proof -
  have "yielded st \<noteq> []" if "has_yielded st"
    using that assms by (auto simp: left_loop_def)
  then show ?thesis
    using assms
    by (cases ex) (auto simp: after_loop_def yield_def Let_def left_loop_def)
qed

lemma stream_loop_stops:
  assumes "stops mi (stake n s)"
  shows "\<exists>ex st. stream_loop mi init_state s = Some (ex, st) \<and> left_loop mi st"
proof -
  let ?es = "stake n s"
  have "fst (list_loop mi init_state ?es) \<noteq> None"
  proof (rule list_loop_exits)
    show "find_str (buffer init_state) end_token = None"
      by (simp add: init_state_def end_token_def)
    show "list_ex ends ?es
         \<or> max 1 (mi - iterations init_state) \<le> int (length (content_texts ?es))
         \<or> find_str (buffer init_state @ concat (content_texts ?es)) end_token \<noteq> None"
      using assms by (simp add: stops_def init_state_def contains_def)
  qed
  then obtain ex st where l: "list_loop mi init_state ?es = (Some ex, st)"
    by (cases "list_loop mi init_state ?es") auto
  have "left_loop mi st"
    using list_loop_inv [OF running_init, of mi ?es] l by simp
  moreover have "stream_loop mi init_state (?es @- sdrop n s) = Some (ex, st)"
    using l by (simp only: stream_loop_shift) simp
  ultimately show ?thesis by (simp add: stake_sdrop)
qed

lemma stream_loop_malformed_Some:
  assumes "stream_loop mi st evs = Some r"
  shows "evs \<noteq> sconst (Chunk Malformed)"
proof (rule stream_loop.raw_induct
    [where P = "\<lambda>mi st evs r. evs \<noteq> sconst (Chunk Malformed)", OF _ assms])
  fix f :: "int \<Rightarrow> gen_state \<Rightarrow> event stream \<Rightarrow> (loop_exit \<times> gen_state) option"
    and mi st evs r
  assume ih: "\<And>mi st evs r. f mi st evs = Some r \<Longrightarrow> evs \<noteq> sconst (Chunk Malformed)"
    and step: "(case shd evs of
        Eof \<Rightarrow> Some (LoopEnded, st)
      | HttpError \<Rightarrow> Some (HttpFailed, st)
      | OtherError \<Rightarrow> Some (Raised, st)
      | Chunk fr \<Rightarrow>
          (case process_chunk mi st fr of
             (Continue, st') \<Rightarrow> f mi st' (stl evs)
           | (Break, st') \<Rightarrow> Some (LoopEnded, st')
           | (Raise, st') \<Rightarrow> Some (Raised, st'))) = Some r"
  show "evs \<noteq> sconst (Chunk Malformed)"
  proof
    assume "evs = sconst (Chunk Malformed)"
    then have "f mi st (sconst (Chunk Malformed)) = Some r"
      using step by (simp add: process_chunk_def)
    then show False using ih by blast
  qed
qed

lemma stream_loop_malformed: "stream_loop mi st (sconst (Chunk Malformed)) = None"
  using stream_loop_malformed_Some [of mi st "sconst (Chunk Malformed)"]
  by (cases "stream_loop mi st (sconst (Chunk Malformed))") auto

text \<open>
  Claim C2, as amended. If the events of the backend, up to some point, hold an event
  that ends the loop (the end of the body, a frame with the done flag, a transport
  failure or another error), or at least \<open>max(1, max_iterations)\<close> non-empty text
  fragments, or text fragments whose concatenation holds the end token, then the
  generator ends, and what it yields has at least one element and at most
  \<open>max(1, max_iterations) + 2\<close>.
\<close>

theorem generator_ends_nonempty:
  assumes "stops mi (stake n (llm (format_optimized_prompt q sr)))"
  shows "\<exists>ys. generate_answer_streaming q sr mi llm = Some ys
               \<and> ys \<noteq> [] \<and> int (length ys) \<le> max 1 mi + 2"
proof -
  obtain ex st where "stream_loop mi init_state (llm (format_optimized_prompt q sr)) = Some (ex, st)"
    and "left_loop mi st"
    using stream_loop_stops [OF assms] by blast
  then show ?thesis
    using after_loop_bounds [of mi st q ex]
    by (simp add: generate_answer_streaming_def)
qed

theorem generator_ends_nonempty_witness:
  "(\<exists>ys. generate_answer_streaming ''capital of France'' empty_results 3
            (\<lambda>prompt. sconst (Chunk (Obj False (RespText ''Paris '')))) = Some ys
          \<and> ys \<noteq> [] \<and> int (length ys) \<le> 5)
   \<and> (\<exists>ys. generate_answer_streaming ''capital of France'' empty_results 3
            (\<lambda>prompt. sconst Eof) = Some ys
          \<and> ys \<noteq> [] \<and> int (length ys) \<le> 5)
   \<and> (\<exists>ys. generate_answer_streaming ''capital of France'' empty_results 3
            (\<lambda>prompt. Chunk (Obj False (RespText ''Paris '')) ## sconst HttpError) = Some ys
          \<and> ys \<noteq> [] \<and> int (length ys) \<le> 5)"
proof -
  have a: "stops 3 (stake (Suc (Suc (Suc 0))) (sconst (Chunk (Obj False (RespText ''Paris '')))))"
    by (simp add: stops_def)
  have b: "stops 3 (stake (Suc 0) (sconst Eof))"
    by (simp add: stops_def)
  have c: "stops 3 (stake (Suc (Suc 0)) (Chunk (Obj False (RespText ''Paris '')) ## sconst HttpError))"
    by (simp add: stops_def)
  show ?thesis
    using generator_ends_nonempty [of 3 "Suc (Suc (Suc 0))"
        "\<lambda>prompt. sconst (Chunk (Obj False (RespText ''Paris '')))" "''capital of France''"
        empty_results, OF a]
      generator_ends_nonempty [of 3 "Suc 0" "\<lambda>prompt. sconst Eof" "''capital of France''"
        empty_results, OF b]
      generator_ends_nonempty [of 3 "Suc (Suc 0)"
        "\<lambda>prompt. Chunk (Obj False (RespText ''Paris '')) ## sconst HttpError"
        "''capital of France''" empty_results, OF c]
    by simp
qed

text \<open>
  The claim as stated fails on a backend that sends malformed frames for ever: the loop
  skips each of them without counting it, so the generator yields nothing and never
  ends.
\<close>

theorem generator_never_ends_counterexample:
  "generate_answer_streaming ''capital of France'' empty_results 3
     (\<lambda>prompt. sconst (Chunk Malformed)) = None"
  by (simp add: generate_answer_streaming_def stream_loop_malformed)

subsection \<open>The iteration cap\<close>








subsection \<open>Kinds of the events of the stream\<close>

lemma status_kinds [simp]:
  "\<not> is_answer_chunk (status_event i text md)"
  "\<not> is_error (status_event i text md)"
  "\<not> is_search_result (status_event i text md)"
  "status_event i text md \<noteq> Done"
  "answer_text (status_event i text md) = None"
  by (simp_all add: status_event_def format_sse_def is_answer_chunk_def is_error_def
      is_search_result_def)

lemma search_error_kinds [simp]:
  "\<not> is_answer_chunk (search_error_event i e)"
  "is_error (search_error_event i e)"
  "search_error_event i e \<noteq> Done"
  "answer_text (search_error_event i e) = None"
  by (simp_all add: search_error_event_def format_sse_def is_answer_chunk_def is_error_def)

lemma search_result_kinds [simp]:
  "\<not> is_answer_chunk (format_sse i ''search_result'' d md)"
  "\<not> is_error (format_sse i ''search_result'' d md)"
  "is_search_result (format_sse i ''search_result'' d md)"
  "format_sse i ''search_result'' d md \<noteq> Done"
  "answer_text (format_sse i ''search_result'' d md) = None"
  by (simp_all add: format_sse_def is_answer_chunk_def is_error_def is_search_result_def)

lemma answer_chunk_kinds [simp]:
  "is_answer_chunk (format_sse i ''answer_chunk'' d md)"
  "\<not> is_error (format_sse i ''answer_chunk'' d md)"
  "\<not> is_search_result (format_sse i ''answer_chunk'' d md)"
  "format_sse i ''answer_chunk'' d md \<noteq> Done"
  "answer_text (format_sse i ''answer_chunk'' (Text t) md) = Some t"
  by (simp_all add: format_sse_def is_answer_chunk_def is_error_def is_search_result_def)

lemma other_kinds [simp]:
  "\<not> is_answer_chunk (generation_complete_event i c)"
  "\<not> is_error (generation_complete_event i c)"
  "generation_complete_event i c \<noteq> Done"
  "answer_text (generation_complete_event i c) = None"
  "\<not> is_answer_chunk (complete_event i)"
  "\<not> is_error (complete_event i)"
  "complete_event i \<noteq> Done"
  "answer_text (complete_event i) = None"
  by (simp_all add: generation_complete_event_def complete_event_def)

lemma fallback_kinds [simp]:
  "is_answer_chunk (fallback_chunk_event i)"
  "\<not> is_error (fallback_chunk_event i)"
  "fallback_chunk_event i \<noteq> Done"
  "answer_text (fallback_chunk_event i) = Some no_content_fallback"
  by (simp_all add: fallback_chunk_event_def)

lemma Done_kinds [simp]:
  "\<not> is_answer_chunk Done"
  "\<not> is_error Done"
  by (simp_all add: is_answer_chunk_def is_error_def)

lemma stream_results_shape:
  "\<exists>added. snd (snd (stream_results i ps m k idx rs out)) = out @ added
      \<and> list_all is_search_result added
      \<and> (\<not> fst (stream_results i ps m k idx rs out) \<longrightarrow>
            fst (snd (stream_results i ps m k idx rs out)) = k + length rs
            \<and> length added = length rs
            \<and> (\<forall>j. k \<le> j \<and> j < k + length rs \<longrightarrow> \<not> is_disconnected (ps j) (request_id i)))"
proof (induction rs arbitrary: k idx out)
  case Nil
  show ?case by auto
next
  case (Cons r rs)
  show ?case
  proof (cases "is_disconnected (ps k) (request_id i)")
    case True
    then show ?thesis by simp
  next
    case False
    let ?ev = "format_sse i ''search_result'' (Result r)
                 [(''position'', MInt (int idx + 1)), (''total'', MInt m)]"
    obtain added where a: "snd (snd (stream_results i ps m (Suc k) (Suc idx) rs (out @ [?ev])))
          = (out @ [?ev]) @ added"
      and b: "list_all is_search_result added"
      and c: "\<not> fst (stream_results i ps m (Suc k) (Suc idx) rs (out @ [?ev])) \<longrightarrow>
            fst (snd (stream_results i ps m (Suc k) (Suc idx) rs (out @ [?ev]))) = Suc k + length rs
            \<and> length added = length rs
            \<and> (\<forall>j. Suc k \<le> j \<and> j < Suc k + length rs \<longrightarrow> \<not> is_disconnected (ps j) (request_id i))"
      using Cons.IH [of "Suc k" "Suc idx" "out @ [?ev]"] by blast
    have "\<forall>j. k \<le> j \<and> j < k + length (r # rs) \<longrightarrow> \<not> is_disconnected (ps j) (request_id i)"
      if "\<forall>j. Suc k \<le> j \<and> j < Suc k + length rs \<longrightarrow> \<not> is_disconnected (ps j) (request_id i)"
    proof (intro allI impI)
      fix j assume "k \<le> j \<and> j < k + length (r # rs)"
      then have "j = k \<or> (Suc k \<le> j \<and> j < Suc k + length rs)" by auto
      then show "\<not> is_disconnected (ps j) (request_id i)" using False that by blast
    qed
    then show ?thesis
      using False a b c
      by (intro exI [of _ "?ev # added"]) simp
  qed
qed

subsection \<open>The generation phase\<close>

lemma stream_chunks_connected:
  assumes "\<forall>j. \<not> is_disconnected (ps j) (request_id i)"
  shows "\<exists>c' added. stream_chunks i ps k c chunks out = (False, c', out @ added)
     \<and> list_all is_answer_chunk added
     \<and> list_all (\<lambda>x. \<not> is_error x \<and> x \<noteq> Done) added
     \<and> List.map_filter answer_text added = filter (\<lambda>ch. ch \<noteq> []) chunks
     \<and> length added = length (filter (\<lambda>ch. ch \<noteq> []) chunks)
     \<and> (has_content c' \<longleftrightarrow> has_content c \<or> filter (\<lambda>ch. ch \<noteq> []) chunks \<noteq> [])"
proof (induction chunks arbitrary: k c out)
  case Nil
  show ?case by simp
next
  case (Cons ch chunks)
  show ?case
  proof (cases "ch = []")
    case True
    then show ?thesis using Cons.IH [of "Suc k" c out] assms by simp
  next
    case False
    let ?c = "\<lparr>total_tokens = total_tokens c + word_count False ch,
              chunk_count = chunk_count c + 1, has_content = True\<rparr>"
    let ?ev = "format_sse i ''answer_chunk'' (Text ch)
                 [(''step'', MStr ''generation_chunk''),
                  (''chunk_id'', MInt (int (chunk_count ?c))),
                  (''tokens'', MInt (int (word_count False ch)))]"
    obtain c' added where "stream_chunks i ps (Suc k) ?c chunks (out @ [?ev]) = (False, c', (out @ [?ev]) @ added)"
      and "list_all is_answer_chunk added"
      and "list_all (\<lambda>x. \<not> is_error x \<and> x \<noteq> Done) added"
      and "List.map_filter answer_text added = filter (\<lambda>ch. ch \<noteq> []) chunks"
      and "length added = length (filter (\<lambda>ch. ch \<noteq> []) chunks)"
      and "has_content c' \<longleftrightarrow> has_content ?c \<or> filter (\<lambda>ch. ch \<noteq> []) chunks \<noteq> []"
      using Cons.IH [of "Suc k" ?c "out @ [?ev]"] by blast
    then show ?thesis
      using False assms
      by (intro exI [of _ c'] exI [of _ "?ev # added"]) (simp add: Let_def)
  qed
qed

lemma generation_phase_disconnected:
  "is_disconnected (ps k) (request_id i) \<Longrightarrow> generation_phase i req llm ps k results out = Some out"
  by (simp add: generation_phase_def)

lemma generation_phase_connected:
  assumes connected: "\<forall>j. \<not> is_disconnected (ps j) (request_id i)"
    and ended: "generate_answer_streaming (sr_query req) results MAX_LLM_ITERATIONS llm = Some chunks"
  shows "\<exists>body c. generation_phase i req llm ps k results out =
           Some (out @ status_event i ''Generating answer...'' [(''step'', MStr ''generation_start'')]
                   # body @ [generation_complete_event i c, complete_event i, Done])
     \<and> list_all is_answer_chunk body
     \<and> list_all (\<lambda>x. \<not> is_error x \<and> x \<noteq> Done) body
     \<and> body \<noteq> []
     \<and> List.map_filter answer_text body =
          (if filter (\<lambda>ch. ch \<noteq> []) chunks = [] then [no_content_fallback]
           else filter (\<lambda>ch. ch \<noteq> []) chunks)"
proof -
  let ?start = "status_event i ''Generating answer...'' [(''step'', MStr ''generation_start'')]"
  let ?c0 = "\<lparr>total_tokens = 0, chunk_count = 0, has_content = False\<rparr>"
  obtain c' added where r: "stream_chunks i ps (Suc k) ?c0 chunks (out @ [?start]) = (False, c', (out @ [?start]) @ added)"
    and a: "list_all is_answer_chunk added"
    and b: "list_all (\<lambda>x. \<not> is_error x \<and> x \<noteq> Done) added"
    and t: "List.map_filter answer_text added = filter (\<lambda>ch. ch \<noteq> []) chunks"
    and l: "length added = length (filter (\<lambda>ch. ch \<noteq> []) chunks)"
    and h: "has_content c' \<longleftrightarrow> has_content ?c0 \<or> filter (\<lambda>ch. ch \<noteq> []) chunks \<noteq> []"
    using stream_chunks_connected [OF connected, of "Suc k" ?c0 chunks "out @ [?start]"] by blast
  show ?thesis
  proof (cases "filter (\<lambda>ch. ch \<noteq> []) chunks = []")
    case True
    then have "\<not> has_content c'" using h by simp
    moreover have "added = []"
      using l True by simp
    ultimately show ?thesis
      using connected ended r True
      by (intro exI [of _ "[fallback_chunk_event i]"] exI [of _ c'])
        (simp add: generation_phase_def Let_def)
  next
    case False
    then have "has_content c'" using h by simp
    moreover have "added \<noteq> []" using l False by auto
    ultimately show ?thesis
      using connected ended r False a b t
      by (intro exI [of _ added] exI [of _ c']) (simp add: generation_phase_def Let_def)
  qed
qed

subsection \<open>The stream depends on the registry only through the disconnect check\<close>







lemma Done_neq [simp]:
  "Done \<noteq> status_event i text md"
  "Done \<noteq> search_error_event i e"
  "Done \<noteq> format_sse i ty d md"
  "Done \<noteq> generation_complete_event i c"
  "Done \<noteq> complete_event i"
  "Done \<noteq> fallback_chunk_event i"
  by (simp_all add: status_event_def search_error_event_def format_sse_def
      generation_complete_event_def complete_event_def fallback_chunk_event_def)

lemma search_result_not_answer:
  "is_search_result x \<Longrightarrow> \<not> is_answer_chunk x \<and> x \<noteq> Done"
  by (cases x) (simp_all add: is_search_result_def is_answer_chunk_def)

subsection \<open>The example inputs\<close>

lemma generate_Eof:
  "generate_answer_streaming q sr mi (\<lambda>prompt. sconst Eof) = Some [fallback_answer q, emergency_fallback]"
  by (subst generate_answer_streaming_def, subst stream_loop.simps)
     (simp add: after_loop_def init_state_def yield_def)

lemma str_int_504: "str_int 504 = ''504''"
  by (simp add: str_int_def str_nat.simps digit_char_def char_of_def bit_Suc_0_iff)

lemma example_query: "sr_query example_request = ''capital of France''"
  by (simp add: example_request_def StreamRequest_defaults_def)

lemma example_rid: "request_id example_ids = ''r1''"
  by (simp add: example_ids_def)

lemma generate_ends_at_once:
  "generate_answer_streaming q sr mi backend_ends_at_once = Some [fallback_answer q, emergency_fallback]"
  using generate_Eof [of q sr mi] by (simp add: backend_ends_at_once_def [abs_def])

lemma registry_disconnected_is: "is_disconnected registry_disconnected ''r1''"
  by (simp add: is_disconnected_def registry_disconnected_def)

lemma registry_connected_is: "\<not> is_disconnected registry_connected ''r1''"
  by (simp add: is_disconnected_def registry_connected_def track_stream_def)

subsection \<open>A client disconnected before the generation phase\<close>

text \<open>
  Claim C5. If one of the polls that the stream makes up to the one that opens the
  generation phase (poll \<open>k\<close>, not later than \<open>search_polls\<close>) finds the disconnected flag
  of the request set in the registry, then the stream ends, and it holds no
  \<open>answer_chunk\<close> envelope and no \<open>[DONE]\<close> marker.
\<close>

theorem disconnected_before_generation:
  assumes k: "k \<le> search_polls req (snd (search_serper serper (sr_query req) ''30.0''))"
    and d: "is_disconnected (ps k) (request_id i)"
  shows "\<exists>out. generate_unified_stream i req serper llm ps = Some out
               \<and> \<not> list_ex is_answer_chunk out \<and> Done \<notin> set out"
proof -
  let ?out = "[status_event i ''Processing query'' [(''step'', MStr ''init'')],
               status_event i ''Searching the web...'' [(''step'', MStr ''search_start'')]]"
  show ?thesis
  proof (cases "snd (search_serper serper (sr_query req) ''30.0'')")
    case (Inl e)
    then have "k = 0" using k by (simp add: search_polls_def)
    then show ?thesis
      using Inl d
      by (simp add: generate_unified_stream_def generation_phase_disconnected list_ex_iff)
  next
    case (Inr results)
    show ?thesis
    proof (cases "is_disconnected (ps 0) (request_id i)")
      case True
      then show ?thesis using Inr by (simp add: generate_unified_stream_def list_ex_iff)
    next
      case False
      let ?found = "dict_get (organic results) []"
      let ?out1 = "?out @ [status_event i ''Search completed''
                             [(''step'', MStr ''search_complete''),
                              (''result_count'', MInt (int (length ?found)))]]"
      show ?thesis
      proof (cases "sr_max_search_results req")
        case None
        then have "k \<le> 1" using k Inr by (simp add: search_polls_def)
        then have "k = 1" using d False by (cases k) auto
        then show ?thesis
          using Inr False None d
          by (simp add: generate_unified_stream_def Let_def generation_phase_disconnected
              list_ex_iff)
      next
        case (Some m)
        let ?mr = "min m (int (length ?found))"
        let ?r = "stream_results i ps ?mr 1 0 (slice_to ?mr ?found) ?out1"
        obtain added where sh: "snd (snd ?r) = ?out1 @ added"
          and sr: "list_all is_search_result added"
          and cont: "\<not> fst ?r \<longrightarrow> fst (snd ?r) = 1 + length (slice_to ?mr ?found)
               \<and> (\<forall>j. 1 \<le> j \<and> j < 1 + length (slice_to ?mr ?found)
                      \<longrightarrow> \<not> is_disconnected (ps j) (request_id i))"
          using stream_results_shape [of i ps ?mr 1 0 "slice_to ?mr ?found" ?out1] by blast
        have kk: "k \<le> 1 + length (slice_to ?mr ?found)"
          using k Inr Some by (simp add: search_polls_def Let_def)
        have clean: "\<not> list_ex is_answer_chunk (?out1 @ added) \<and> Done \<notin> set (?out1 @ added)"
          using sr search_result_not_answer
          by (auto simp: list_ex_iff list_all_iff)
        show ?thesis
        proof (cases "?found = []")
          case True
          then have "k = 1" using kk d False by (cases k) (auto simp: slice_to_def split: if_splits)
          then show ?thesis
            using Inr False True d
            by (simp add: generate_unified_stream_def Let_def generation_phase_disconnected
                list_ex_iff)
        next
          case nonempty: False
          show ?thesis
          proof (cases "fst ?r")
            case True
            then show ?thesis
              using Inr False Some nonempty sh clean
              by (simp add: generate_unified_stream_def Let_def)
          next
            case notret: False
            then have "k = 1 + length (slice_to ?mr ?found)"
              using cont kk d \<open>\<not> is_disconnected (ps 0) (request_id i)\<close>
              by (metis One_nat_def Suc_leI le_neq_implies_less not_gr_zero plus_1_eq_Suc)
            then have "is_disconnected (ps (fst (snd ?r))) (request_id i)"
              using cont notret d by simp
            then show ?thesis
              using Inr False Some nonempty notret sh clean
              by (simp add: generate_unified_stream_def Let_def generation_phase_disconnected)
          qed
        qed
      qed
    qed
  qed
qed

theorem disconnected_before_generation_witness:
  "1 \<le> search_polls example_request
          (snd (search_serper search_finds_one (sr_query example_request) ''30.0''))
   \<and> is_disconnected (polls_disconnected_after_search 1) (request_id example_ids)
   \<and> (\<exists>out. generate_unified_stream example_ids example_request search_finds_one
               backend_ends_at_once polls_disconnected_after_search = Some out
            \<and> \<not> list_ex is_answer_chunk out \<and> Done \<notin> set out)"
proof -
  have h1: "1 \<le> search_polls example_request
          (snd (search_serper search_finds_one (sr_query example_request) ''30.0''))"
    by (simp add: search_polls_def search_serper_def search_finds_one_def example_request_def
        StreamRequest_defaults_def Let_def)
  have h2: "is_disconnected (polls_disconnected_after_search 1) (request_id example_ids)"
    by (simp add: polls_disconnected_after_search_def example_rid registry_disconnected_is)
  show ?thesis
    using disconnected_before_generation [where ps = polls_disconnected_after_search
        and req = example_request and serper = search_finds_one and i = example_ids
        and k = 1 and llm = backend_ends_at_once, OF h1 h2]
      h1 h2
    by blast
qed

subsection \<open>A failed search\<close>

text \<open>
  Claim C4, as amended. If the search request fails, the client is never found
  disconnected and the generator ends on the empty result set, then the stream is: the
  two status envelopes, one \<open>error\<close> envelope of the search stage, the status envelope
  that opens the generation, the \<open>answer_chunk\<close> envelopes of the non-empty fragments
  that the generator yields for the empty result set (or the one fallback chunk when
  there is none), none of them an error, then the two final status envelopes and the
  \<open>[DONE]\<close> marker.
\<close>

theorem search_failure_fallback:
  assumes failed: "serper (sr_query req) 0 = Fails f"
    and connected: "\<forall>k. \<not> is_disconnected (ps k) (request_id i)"
    and ended: "generate_answer_streaming (sr_query req) empty_results MAX_LLM_ITERATIONS llm
                  = Some chunks"
  shows "\<exists>e body c.
           snd (search_serper serper (sr_query req) ''30.0'') = Inl e
         \<and> generate_unified_stream i req serper llm ps =
             Some ([status_event i ''Processing query'' [(''step'', MStr ''init'')],
                    status_event i ''Searching the web...'' [(''step'', MStr ''search_start'')],
                    search_error_event i
                      \<lparr>exn_type = ''HTTPException'', exn_text = str_http_exception e\<rparr>,
                    status_event i ''Generating answer...'' [(''step'', MStr ''generation_start'')]]
                   @ body @ [generation_complete_event i c, complete_event i, Done])
         \<and> list_all is_answer_chunk body
         \<and> list_all (\<lambda>x. \<not> is_error x) body
         \<and> List.map_filter answer_text body =
              (if filter (\<lambda>ch. ch \<noteq> []) chunks = [] then [no_content_fallback]
               else filter (\<lambda>ch. ch \<noteq> []) chunks)"
proof -
  have "\<exists>e. snd (search_serper serper (sr_query req) ''30.0'') = Inl e"
    using failed by (cases f) (simp_all add: search_serper_def)
  then obtain e where e: "snd (search_serper serper (sr_query req) ''30.0'') = Inl e" ..
  let ?out = "[status_event i ''Processing query'' [(''step'', MStr ''init'')],
               status_event i ''Searching the web...'' [(''step'', MStr ''search_start'')],
               search_error_event i
                 \<lparr>exn_type = ''HTTPException'', exn_text = str_http_exception e\<rparr>]"
  obtain body c where g: "generation_phase i req llm ps 0 empty_results ?out =
           Some (?out @ status_event i ''Generating answer...'' [(''step'', MStr ''generation_start'')]
                   # body @ [generation_complete_event i c, complete_event i, Done])"
    and a: "list_all is_answer_chunk body"
    and b: "list_all (\<lambda>x. \<not> is_error x \<and> x \<noteq> Done) body"
    and t: "List.map_filter answer_text body =
          (if filter (\<lambda>ch. ch \<noteq> []) chunks = [] then [no_content_fallback]
           else filter (\<lambda>ch. ch \<noteq> []) chunks)"
    using generation_phase_connected [OF connected ended, of 0 ?out] by blast
  have b': "list_all (\<lambda>x. \<not> is_error x) body"
    using b by (simp add: list_all_iff)
  have "generate_unified_stream i req serper llm ps =
          generation_phase i req llm ps 0 empty_results ?out"
    using e by (simp add: generate_unified_stream_def)
  then have "generate_unified_stream i req serper llm ps =
             Some ([status_event i ''Processing query'' [(''step'', MStr ''init'')],
                    status_event i ''Searching the web...'' [(''step'', MStr ''search_start'')],
                    search_error_event i
                      \<lparr>exn_type = ''HTTPException'', exn_text = str_http_exception e\<rparr>,
                    status_event i ''Generating answer...'' [(''step'', MStr ''generation_start'')]]
                   @ body @ [generation_complete_event i c, complete_event i, Done])"
    using g by simp
  then show ?thesis using e a b' t by blast
qed

theorem search_failure_fallback_witness:
  "search_times_out (sr_query example_request) 0 = Fails (TimeoutException ''timed out'')
   \<and> (\<forall>k. \<not> is_disconnected (polls_connected k) (request_id example_ids))
   \<and> generate_answer_streaming (sr_query example_request) empty_results MAX_LLM_ITERATIONS
        backend_ends_at_once
       = Some [fallback_answer (sr_query example_request), emergency_fallback]
   \<and> (\<exists>e body c.
           snd (search_serper search_times_out (sr_query example_request) ''30.0'') = Inl e
         \<and> generate_unified_stream example_ids example_request search_times_out
              backend_ends_at_once polls_connected =
             Some ([status_event example_ids ''Processing query'' [(''step'', MStr ''init'')],
                    status_event example_ids ''Searching the web...''
                      [(''step'', MStr ''search_start'')],
                    search_error_event example_ids
                      \<lparr>exn_type = ''HTTPException'', exn_text = str_http_exception e\<rparr>,
                    status_event example_ids ''Generating answer...''
                      [(''step'', MStr ''generation_start'')]]
                   @ body @ [generation_complete_event example_ids c,
                             complete_event example_ids, Done])
         \<and> list_all is_answer_chunk body
         \<and> list_all (\<lambda>x. \<not> is_error x) body
         \<and> List.map_filter answer_text body =
              (if filter (\<lambda>ch. ch \<noteq> [])
                    [fallback_answer (sr_query example_request), emergency_fallback] = []
               then [no_content_fallback]
               else filter (\<lambda>ch. ch \<noteq> [])
                      [fallback_answer (sr_query example_request), emergency_fallback]))"
proof -
  have h1: "search_times_out (sr_query example_request) 0 = Fails (TimeoutException ''timed out'')"
    by (simp add: search_times_out_def)
  have h2: "\<forall>k. \<not> is_disconnected (polls_connected k) (request_id example_ids)"
    by (simp add: polls_connected_def example_rid registry_connected_is)
  have h3: "generate_answer_streaming (sr_query example_request) empty_results MAX_LLM_ITERATIONS
        backend_ends_at_once
       = Some [fallback_answer (sr_query example_request), emergency_fallback]"
    by (rule generate_ends_at_once)
  show ?thesis
    using search_failure_fallback [where serper = search_times_out and req = example_request
        and ps = polls_connected and i = example_ids and llm = backend_ends_at_once, OF h1 h2 h3]
      h1 h2 h3
    by blast
qed

text \<open>
  The claim as stated fails when the disconnected flag of the request is set: the search
  times out, the error envelope is sent, and the stream returns at the poll that opens
  the generation phase, with no final status envelope and no \<open>[DONE]\<close> marker.
\<close>

theorem disconnected_client_counterexample:
  "generate_unified_stream example_ids example_request search_times_out backend_ends_at_once
     polls_disconnected =
   Some [status_event example_ids ''Processing query'' [(''step'', MStr ''init'')],
         status_event example_ids ''Searching the web...'' [(''step'', MStr ''search_start'')],
         search_error_event example_ids
           \<lparr>exn_type = ''HTTPException'',
            exn_text = ''504: Search request timed out after 30.0 seconds''\<rparr>]"
proof -
  have e: "snd (search_serper search_times_out (sr_query example_request) ''30.0'')
        = Inl (HTTPException 504 ''Search request timed out after 30.0 seconds'')"
    by (simp add: search_serper_def search_times_out_def)
  have s: "str_http_exception (HTTPException 504 ''Search request timed out after 30.0 seconds'')
        = ''504: Search request timed out after 30.0 seconds''"
    by (simp add: str_http_exception_def HTTPException_def str_int_504)
  have d: "is_disconnected (polls_disconnected 0) (request_id example_ids)"
    by (simp add: polls_disconnected_def example_rid registry_disconnected_is)
  show ?thesis
    by (simp add: generate_unified_stream_def e s generation_phase_disconnected [where ps = polls_disconnected and k = 0, OF d])
qed

subsection \<open>A request that is absent from the registry\<close>



subsection \<open>The window and the truncations of the prompt formatter\<close>





end
